theory Spec2Isabelle
  imports Complex_Main
begin

section \<open>Feature extraction from FASTQ files (lib/platform_file_features.py)\<close>

text \<open>
  A shallow embedding of \<^verbatim>\<open>get_file_features\<close> and \<^verbatim>\<open>get_directory_features\<close>.

  Conventions of the model:
  \<^item> Python integers are \<open>int\<close>; Python floats are idealised as \<open>real\<close> (no rounding,
    no NaN, no infinities);
  \<^item> an exception is the \<open>Inl\<close> branch of a sum; the state that survives an exception
    (the reader object, the output sink) is returned beside it;
  \<^item> a FASTQ file is the finite list of the records that \<^verbatim>\<open>SeqReader\<close> yields for it;
  \<^item> the \<^verbatim>\<open>debug\<close> flag only prints to the diagnostic stream and is left out.
\<close>

subsection \<open>Errors and Python built-ins\<close>

datatype error =
    ZeroDivisionError
  | StatisticsError
  | ValueError
  | IndexError
  | DecodeError

text \<open>\<^verbatim>\<open>sum(xs) / len(xs)\<close> on a list of floats.\<close>

definition mean_float :: "real list \<Rightarrow> error + real" where
  "mean_float xs =
     (if length xs = 0 then Inl ZeroDivisionError
      else Inr (sum_list xs / real (length xs)))"

text \<open>\<^verbatim>\<open>sum(xs) / len(xs)\<close> on a list of integers (true division).\<close>

definition mean_int :: "int list \<Rightarrow> error + real" where
  "mean_int xs =
     (if length xs = 0 then Inl ZeroDivisionError
      else Inr (real_of_int (sum_list xs) / real (length xs)))"

text \<open>\<^verbatim>\<open>min(xs)\<close> and \<^verbatim>\<open>max(xs)\<close>: ValueError on an empty sequence.\<close>

definition min_py :: "'a::linorder list \<Rightarrow> error + 'a" where
  "min_py xs = (case xs of [] \<Rightarrow> Inl ValueError | v # vs \<Rightarrow> Inr (fold min vs v))"

definition max_py :: "'a::linorder list \<Rightarrow> error + 'a" where
  "max_py xs = (case xs of [] \<Rightarrow> Inl ValueError | v # vs \<Rightarrow> Inr (fold max vs v))"

text \<open>\<^verbatim>\<open>list(map(f, xs))\<close> where \<open>f\<close> may raise: the first exception ends the map.\<close>

fun map_raising :: "('a \<Rightarrow> error + 'b) \<Rightarrow> 'a list \<Rightarrow> error + 'b list" where
  "map_raising f [] = Inr []"
| "map_raising f (v # vs) =
     (case f v of
        Inl e \<Rightarrow> Inl e
      | Inr w \<Rightarrow> (case map_raising f vs of Inl e \<Rightarrow> Inl e | Inr ws \<Rightarrow> Inr (w # ws)))"

text \<open>\<^verbatim>\<open>xs[i]\<close> for a non-negative literal index.\<close>

definition get_item :: "'a list \<Rightarrow> nat \<Rightarrow> error + 'a" where
  "get_item xs i = (if i < length xs then Inr (xs ! i) else Inl IndexError)"

text \<open>\<^verbatim>\<open>s.endswith(suffix)\<close> and \<^verbatim>\<open>s.split(sep)\<close> for a one-character separator.\<close>

definition endswith :: "string \<Rightarrow> string \<Rightarrow> bool" where
  "endswith s suf = (length suf \<le> length s \<and> drop (length s - length suf) s = suf)"

fun split_py :: "char \<Rightarrow> string \<Rightarrow> string list" where
  "split_py sep [] = [[]]"
| "split_py sep (c # cs) =
     (if c = sep then [] # split_py sep cs
      else (case split_py sep cs of [] \<Rightarrow> [[c]] | p # ps \<Rightarrow> (c # p) # ps))"

subsection \<open>The statistics module on integer data\<close>

text \<open>
  \<^verbatim>\<open>statistics.median\<close>: the middle element of the sorted data, or the mean of the two
  middle elements.
\<close>

definition median :: "int list \<Rightarrow> error + real" where
  "median data0 =
     (let data = sort data0; n = length data in
      if n = 0 then Inl StatisticsError
      else if n mod 2 = 1 then Inr (real_of_int (data ! (n div 2)))
      else (let i = n div 2 in Inr (real_of_int (data ! (i - 1) + data ! i) / 2)))"

text \<open>
  \<^verbatim>\<open>statistics._ss\<close> (CPython 3.12) on integers: one pass collects the count, the sum
  and the sum of squares as exact fractions; the sum of squared deviations is
  \<^verbatim>\<open>(count * sxx - sx * sx) / count\<close>. It returns the triple (ssd, c, count).
\<close>

definition ss :: "int list \<Rightarrow> real \<times> real \<times> nat" where
  "ss data =
     (let count = length data;
          sx = real_of_int (sum_list data);
          sxx = real_of_int (sum_list (map (\<lambda>n. n * n) data))
      in if count = 0 then (0, 0, count)
         else ((real count * sxx - sx * sx) / real count, sx / real count, count))"

text \<open>
  \<^verbatim>\<open>statistics.stdev\<close>: StatisticsError below two data points, else the square root of
  \<^verbatim>\<open>ss / (n - 1)\<close>.
\<close>

definition stdev :: "int list \<Rightarrow> error + real" where
  "stdev data =
     (case ss data of (ssd, c, n) \<Rightarrow>
        if n < 2 then Inl StatisticsError
        else Inr (sqrt (ssd / real (n - 1))))"

subsection \<open>Collaborators that are imported, not defined, by the module\<close>

text \<open>
  \<^verbatim>\<open>get_offset\<close> and \<^verbatim>\<open>transform_phred_to_prob\<close> come from \<^verbatim>\<open>platform_features\<close>,
  \<^verbatim>\<open>skew\<close> from \<^verbatim>\<open>scipy.stats\<close>. The extractor is parametric in them; the first two
  may raise.
\<close>

record collaborators =
  get_offset :: "string \<Rightarrow> error + int"
  transform_phred_to_prob :: "char \<Rightarrow> int \<Rightarrow> error + real"
  skew :: "int list \<Rightarrow> real"

subsection \<open>Records, the reader and the extractor's local state\<close>

type_synonym fastq_record = "string \<times> string \<times> string \<times> string"

definition read_of :: "fastq_record \<Rightarrow> string" where
  "read_of r = (case r of (_, read, qual, _) \<Rightarrow> read)"

definition qual_of :: "fastq_record \<Rightarrow> string" where
  "qual_of r = (case r of (_, read, qual, _) \<Rightarrow> qual)"

text \<open>The \<^verbatim>\<open>SeqReader\<close> object: the records not yet yielded, and whether it was closed.\<close>

record seq_reader =
  pending :: "fastq_record list"
  was_closed :: bool

definition SeqReader :: "fastq_record list \<Rightarrow> seq_reader" where
  "SeqReader fastq_input = \<lparr>pending = fastq_input, was_closed = False\<rparr>"

definition close_reader :: "seq_reader \<Rightarrow> seq_reader" where
  "close_reader reader = reader\<lparr>was_closed := True\<rparr>"

text \<open>The local variables that the loop of \<^verbatim>\<open>get_file_features\<close> updates.\<close>

record extractor =
  position :: int
  count :: int
  offset :: int
  lengths :: "int list"
  avg_avg_phred :: "real list"
  avg_min_phred :: "real list"
  avg_max_phred :: "real list"

definition initial :: extractor where
  "initial = \<lparr>position = 0, count = 0, offset = 0, lengths = [],
              avg_avg_phred = [], avg_min_phred = [], avg_max_phred = []\<rparr>"

subsection \<open>get_file_features\<close>

text \<open>The inner function \<^verbatim>\<open>get_qual_features\<close>; \<open>off\<close> is the enclosing \<^verbatim>\<open>offset\<close>.\<close>

definition get_qual_features ::
  "collaborators \<Rightarrow> int \<Rightarrow> string \<Rightarrow> error + (real \<times> real \<times> real)" where
  "get_qual_features C off qual_ascii =
     (case map_raising
             (\<lambda>x. case transform_phred_to_prob C x off of
                     Inl e \<Rightarrow> Inl e
                   | Inr p \<Rightarrow> Inr (p * 100)) qual_ascii of
        Inl e \<Rightarrow> Inl e
      | Inr seq_qual_prob \<Rightarrow>
          (case mean_float seq_qual_prob of
             Inl e \<Rightarrow> Inl e
           | Inr a \<Rightarrow>
               (case min_py seq_qual_prob of
                  Inl e \<Rightarrow> Inl e
                | Inr lo \<Rightarrow>
                    (case max_py seq_qual_prob of
                       Inl e \<Rightarrow> Inl e
                     | Inr hi \<Rightarrow> Inr (a, lo, hi)))))"

text \<open>How one iteration of the \<^verbatim>\<open>for\<close> loop ends.\<close>

datatype flow = Next extractor | Break extractor | Raise error

text \<open>The body of the loop (lines 53 to 66) on one record.\<close>

definition loop_body :: "collaborators \<Rightarrow> int \<Rightarrow> int \<Rightarrow> extractor \<Rightarrow> fastq_record \<Rightarrow> flow" where
  "loop_body C x y st0 record =
     (let read = read_of record; qual = qual_of record;
          st1 = st0\<lparr>position := position st0 + 1\<rparr>
      in if position st1 > y then Break st1
         else if length qual = 0 \<or> position st1 < x then Next st1
         else
           (let st2 = st1\<lparr>count := count st1 + 1,
                          lengths := lengths st1 @ [int (length read)]\<rparr>
            in case (if offset st2 = 0 then get_offset C qual else Inr (offset st2)) of
                 Inl e \<Rightarrow> Raise e
               | Inr off \<Rightarrow>
                   (let st3 = st2\<lparr>offset := off\<rparr>
                    in case get_qual_features C (offset st3) qual of
                         Inl e \<Rightarrow> Raise e
                       | Inr (a, lo, hi) \<Rightarrow>
                           Next (st3\<lparr>avg_avg_phred := avg_avg_phred st3 @ [a],
                                     avg_min_phred := avg_min_phred st3 @ [lo],
                                     avg_max_phred := avg_max_phred st3 @ [hi]\<rparr>))))"

text \<open>
  \<^verbatim>\<open>for record in reader\<close>: each iteration takes one record from the reader; the loop
  ends when the reader is exhausted, at \<^verbatim>\<open>break\<close>, or with an exception. The second
  component is what the reader has left.
\<close>

fun for_loop ::
  "collaborators \<Rightarrow> int \<Rightarrow> int \<Rightarrow> extractor \<Rightarrow> fastq_record list
     \<Rightarrow> (error + extractor) \<times> fastq_record list" where
  "for_loop C x y st [] = (Inr st, [])"
| "for_loop C x y st (record # rest) =
     (case loop_body C x y st record of
        Raise e \<Rightarrow> (Inl e, rest)
      | Break st' \<Rightarrow> (Inr st', rest)
      | Next st' \<Rightarrow> for_loop C x y st' rest)"

text \<open>Lines 45 to 48: the window, swapped when both bounds are truthy and out of order.\<close>

definition window :: "int \<times> int \<Rightarrow> int \<times> int" where
  "window positions =
     (let x = fst positions; y = snd positions
      in if x \<noteq> 0 \<and> y \<noteq> 0 \<and> y < x then (y, x) else (x, y))"

text \<open>Line 69: the dictionary comprehension, in the key order of \<^verbatim>\<open>qual_array\<close>.\<close>

definition qual_avgs :: "extractor \<Rightarrow> error + (real \<times> real \<times> real)" where
  "qual_avgs st =
     (case mean_float (avg_avg_phred st) of
        Inl e \<Rightarrow> Inl e
      | Inr a \<Rightarrow>
          (case mean_float (avg_min_phred st) of
             Inl e \<Rightarrow> Inl e
           | Inr lo \<Rightarrow>
               (case mean_float (avg_max_phred st) of
                  Inl e \<Rightarrow> Inl e
                | Inr hi \<Rightarrow> Inr (a, lo, hi))))"

text \<open>Lines 74 to 84: the list of nine features, its elements evaluated left to right.\<close>

definition feature_list ::
  "collaborators \<Rightarrow> int list \<Rightarrow> real \<times> real \<times> real \<Rightarrow> error + real list" where
  "feature_list C ls avgs =
     (case mean_int ls of
        Inl e \<Rightarrow> Inl e
      | Inr avg_length \<Rightarrow>
     (case min_py ls of
        Inl e \<Rightarrow> Inl e
      | Inr min_length \<Rightarrow>
     (case max_py ls of
        Inl e \<Rightarrow> Inl e
      | Inr max_length \<Rightarrow>
     (case median ls of
        Inl e \<Rightarrow> Inl e
      | Inr median_length \<Rightarrow>
     (case stdev ls of
        Inl e \<Rightarrow> Inl e
      | Inr stddev_length \<Rightarrow>
          Inr [avg_length, real_of_int min_length, real_of_int max_length,
               median_length, stddev_length, skew C ls,
               fst avgs, fst (snd avgs), snd (snd avgs)])))))"

text \<open>
  The whole function. It returns the result (or the exception) and the reader as the
  call leaves it.
\<close>

definition get_file_features ::
  "collaborators \<Rightarrow> fastq_record list \<Rightarrow> int \<times> int
     \<Rightarrow> (error + (real list \<times> int)) \<times> seq_reader" where
  "get_file_features C fastq_input positions =
     (let reader = SeqReader fastq_input;
          x = fst (window positions); y = snd (window positions)
      in case for_loop C x y initial (pending reader) of
           (Inl e, rest) \<Rightarrow> (Inl e, reader\<lparr>pending := rest\<rparr>)
         | (Inr st, rest) \<Rightarrow>
             (let reader1 = reader\<lparr>pending := rest\<rparr>
              in case qual_avgs st of
                   Inl e \<Rightarrow> (Inl e, reader1)
                 | Inr avgs \<Rightarrow>
                     (let reader2 = close_reader reader1
                      in case feature_list C (lengths st) avgs of
                           Inl e \<Rightarrow> (Inl e, reader2)
                         | Inr features \<Rightarrow> (Inr (features, count st), reader2))))"

subsection \<open>get_directory_features\<close>

text \<open>
  A cell of the tab-separated output is a number or a string; a row is the list of its
  cells before \<^verbatim>\<open>str\<close> and \<^verbatim>\<open>"\t".join\<close>; the sink is the list of the rows written.
\<close>

datatype cell = Num real | Txt string

definition HEADER :: "string list" where
  "HEADER = [''avg_length'', ''min_length'', ''max_length'', ''median_length'',
             ''stddev_length'', ''skew_length'', ''avg_avg_phred'', ''avg_min_phred'',
             ''avg_max_phred'']"

text \<open>Lines 95 to 100: the header line, when requested.\<close>

definition header_rows :: "bool \<Rightarrow> bool \<Rightarrow> cell list list" where
  "header_rows header srr =
     (if header
      then [map Txt HEADER @ [Txt ''label''] @ (if srr \<and> header then [Txt ''accession_number''] else [])]
      else [])"

text \<open>
  Lines 102 to 111: the loop over the directory listing. \<open>files\<close> gives the records of
  each file of the directory. An exception of \<^verbatim>\<open>get_file_features\<close> is not caught.
\<close>

fun listing_loop ::
  "collaborators \<Rightarrow> (string \<Rightarrow> fastq_record list) \<Rightarrow> int \<times> int \<Rightarrow> int \<Rightarrow> cell list list
     \<Rightarrow> string list \<Rightarrow> (error + int) \<times> cell list list" where
  "listing_loop C files positions n out [] = (Inr n, out)"
| "listing_loop C files positions n out (filename # rest) =
     (if endswith filename ''.fastq'' then
        (case fst (get_file_features C (files filename) positions) of
           Inl e \<Rightarrow> (Inl e, out)
         | Inr (features, _) \<Rightarrow>
             (let labels = split_py (CHR ''.'') filename
              in case get_item labels 1 of
                   Inl e \<Rightarrow> (Inl e, out)
                 | Inr platform \<Rightarrow>
                     (case get_item labels 0 of
                        Inl e \<Rightarrow> (Inl e, out)
                      | Inr accession \<Rightarrow>
                          listing_loop C files positions (n + 1)
                            (out @ [map Num features @ [Txt platform, Txt accession]]) rest)))
      else listing_loop C files positions n out rest)"

definition get_directory_features ::
  "collaborators \<Rightarrow> (string \<Rightarrow> fastq_record list) \<Rightarrow> string list \<Rightarrow> int \<times> int
     \<Rightarrow> bool \<Rightarrow> bool \<Rightarrow> (error + int) \<times> cell list list" where
  "get_directory_features C files listing positions header srr =
     listing_loop C files positions 0 (header_rows header srr) listing"

subsection \<open>Notions used in the statements\<close>

text \<open>
  The count of contributing reads and the four accumulators have the same number of
  entries.
\<close>

definition aligned :: "extractor \<Rightarrow> bool" where
  "aligned st =
     (count st = int (length (lengths st)) \<and>
      count st = int (length (avg_avg_phred st)) \<and>
      count st = int (length (avg_min_phred st)) \<and>
      count st = int (length (avg_max_phred st)))"

text \<open>
  The contributing records: those that pass lines 55 to 59 of the loop when it starts
  with \<^verbatim>\<open>position\<close> equal to \<open>p\<close>, in file order.
\<close>

fun contributing :: "int \<Rightarrow> int \<Rightarrow> int \<Rightarrow> fastq_record list \<Rightarrow> fastq_record list" where
  "contributing x y p [] = []"
| "contributing x y p (record # rest) =
     (if p + 1 > y then []
      else if length (qual_of record) = 0 \<or> p + 1 < x then contributing x y (p + 1) rest
      else record # contributing x y (p + 1) rest)"




text \<open>
  The closed form of the specification: the square root of the sum of the squared
  deviations from the mean, divided by \<open>n - 1\<close>.
\<close>

definition closed_form_stddev :: "int list \<Rightarrow> real" where
  "closed_form_stddev xs =
     (let n = real (length xs); mean = real_of_int (sum_list xs) / n
      in sqrt ((\<Sum>v\<leftarrow>xs. (real_of_int v - mean)\<^sup>2) / (n - 1)))"

subsection \<open>A concrete instance for evaluation\<close>

text \<open>
  One choice of collaborators, used only to evaluate the model on concrete files: the
  offset is 33 when some quality character lies below 64 and 64 otherwise, a character
  decodes to \<open>10\<close> to the power \<open>- score / 10\<close>, and a negative score is an error.
\<close>

definition sample_get_offset :: "string \<Rightarrow> error + int" where
  "sample_get_offset qual =
     (if \<exists>c \<in> set qual. (of_char c :: int) < 33 then Inl DecodeError
      else if \<exists>c \<in> set qual. (of_char c :: int) < 64 then Inr 33
      else Inr 64)"

definition sample_transform :: "char \<Rightarrow> int \<Rightarrow> error + real" where
  "sample_transform c off =
     (let score = of_char c - off
      in if score < 0 then Inl DecodeError
         else Inr (10 powr (- (real_of_int score / 10))))"

definition sample :: collaborators where
  "sample = \<lparr>get_offset = sample_get_offset,
             transform_phred_to_prob = sample_transform,
             skew = (\<lambda>ls. 0)\<rparr>"

text \<open>
  A file of three records: the first has Phred+33 qualities, the second has no quality
  string, the third has qualities that alone would give the offset 64.
\<close>

definition reads :: "fastq_record list" where
  "reads = [(''r1'', ''ACGT'', ''5555'', ''''),
            (''r2'', ''AC'', '''', ''''),
            (''r3'', ''ACGTAC'', ''hhhhhh'', '''')]"

text \<open>
  A directory of the sample file under several names, one of which,
  \<^verbatim>\<open>SRR222.pacbio.fastq\<close>, is an empty file.
\<close>

definition sample_files :: "string \<Rightarrow> fastq_record list" where
  "sample_files filename = (if filename = ''SRR222.pacbio.fastq'' then [] else reads)"




section \<open>Properties\<close>

subsection \<open>Unfolding sets\<close>

lemmas sample_simps = sample_def sample_get_offset_def sample_transform_def reads_def
lemmas model_simps = get_file_features_def window_def SeqReader_def loop_body_def initial_def Let_def read_of_def qual_of_def get_qual_features_def mean_float_def min_py_def max_py_def qual_avgs_def feature_list_def close_reader_def mean_int_def median_def stdev_def ss_def


subsection \<open>The count and the accumulators\<close>

lemma aligned_initial: "aligned initial"
  by (simp add: aligned_def initial_def)

lemma loop_body_aligned:
  assumes "aligned st" and "loop_body C x y st r = Next st' \<or> loop_body C x y st r = Break st'"
  shows "aligned st'"
  using assms
  by (auto simp: loop_body_def aligned_def Let_def split: if_splits sum.splits prod.splits)

lemma for_loop_aligned:
  "aligned st \<Longrightarrow> for_loop C x y st recs = (Inr st', rest) \<Longrightarrow> aligned st'"
proof (induction recs arbitrary: st)
  case Nil
  then show ?case by simp
next
  case (Cons r recs)
  show ?case
  proof (cases "loop_body C x y st r")
    case (Next s)
    with Cons.prems have "aligned s" "for_loop C x y s recs = (Inr st', rest)"
      by (auto intro: loop_body_aligned)
    then show ?thesis by (rule Cons.IH)
  next
    case (Break s)
    with Cons.prems show ?thesis by (auto intro: loop_body_aligned)
  next
    case (Raise e)
    with Cons.prems show ?thesis by simp
  qed
qed

lemma gff_success:
  assumes "get_file_features C recs positions = (Inr (features, n), reader)"
  shows "\<exists>st rest. for_loop C (fst (window positions)) (snd (window positions)) initial recs = (Inr st, rest)
            \<and> n = count st"
  using assms
  by (auto simp: get_file_features_def SeqReader_def Let_def split: prod.splits sum.splits)

text \<open>
  C9. The count of contributing reads equals the number of entries of the lengths
  accumulator and of each of the three quality accumulators: this holds at the start, is
  kept by every iteration of the loop that does not raise, holds when the loop ends, and
  the count that \<^verbatim>\<open>get_file_features\<close> returns is that of such a state.
\<close>

theorem count_matches_accumulators:
  "aligned initial \<and>
   (aligned st \<and> (loop_body C x y st r = Next st' \<or> loop_body C x y st r = Break st')
      \<longrightarrow> aligned st') \<and>
   (for_loop C x y initial recs = (Inr final, rest) \<longrightarrow> aligned final) \<and>
   (get_file_features C recs positions = (Inr (features, n), reader) \<longrightarrow>
      (\<exists>final rest. for_loop C (fst (window positions)) (snd (window positions)) initial recs
                       = (Inr final, rest)
          \<and> aligned final \<and> n = count final))"
proof (intro conjI impI)
  show "aligned initial" by (rule aligned_initial)
next
  assume "aligned st \<and> (loop_body C x y st r = Next st' \<or> loop_body C x y st r = Break st')"
  then show "aligned st'" using loop_body_aligned by blast
next
  assume "for_loop C x y initial recs = (Inr final, rest)"
  then show "aligned final" using for_loop_aligned [OF aligned_initial] by blast
next
  assume "get_file_features C recs positions = (Inr (features, n), reader)"
  from gff_success [OF this] obtain st rest' where
    run: "for_loop C (fst (window positions)) (snd (window positions)) initial recs = (Inr st, rest')"
    and n: "n = count st" by blast
  from for_loop_aligned [OF aligned_initial run] run n
  show "\<exists>final rest. for_loop C (fst (window positions)) (snd (window positions)) initial recs
                       = (Inr final, rest)
          \<and> aligned final \<and> n = count final" by blast
qed

text \<open>The loop on the sample file with the window (1, 3000).\<close>

lemma sample_run:
  "for_loop sample 1 3000 initial reads =
     (Inr \<lparr>position = 3, count = 2, offset = 33, lengths = [4, 6],
           avg_avg_phred = [100 * 10 powr - 2, 100 * 10 powr - (71 / 10)],
           avg_min_phred = [10 powr - 2 * 100, 10 powr - (71 / 10) * 100],
           avg_max_phred = [10 powr - 2 * 100, 10 powr - (71 / 10) * 100]\<rparr>, [])"
  by (simp add: sample_simps model_simps)

theorem count_matches_accumulators_witness:
  "for_loop sample 1 3000 initial reads =
     (Inr \<lparr>position = 3, count = 2, offset = 33, lengths = [4, 6],
           avg_avg_phred = [100 * 10 powr - 2, 100 * 10 powr - (71 / 10)],
           avg_min_phred = [10 powr - 2 * 100, 10 powr - (71 / 10) * 100],
           avg_max_phred = [10 powr - 2 * 100, 10 powr - (71 / 10) * 100]\<rparr>, [])
   \<and> aligned \<lparr>position = 3, count = 2, offset = 33, lengths = [4, 6],
           avg_avg_phred = [100 * 10 powr - 2, 100 * 10 powr - (71 / 10)],
           avg_min_phred = [10 powr - 2 * 100, 10 powr - (71 / 10) * 100],
           avg_max_phred = [10 powr - 2 * 100, 10 powr - (71 / 10) * 100]\<rparr>"
  using count_matches_accumulators [of initial sample 1 3000 "hd reads" initial reads
     "\<lparr>position = 3, count = 2, offset = 33, lengths = [4, 6],
           avg_avg_phred = [100 * 10 powr - 2, 100 * 10 powr - (71 / 10)],
           avg_min_phred = [10 powr - 2 * 100, 10 powr - (71 / 10) * 100],
           avg_max_phred = [10 powr - 2 * 100, 10 powr - (71 / 10) * 100]\<rparr>" "[]"] sample_run
  by simp

subsection \<open>The window\<close>

lemma for_loop_end_zero:
  "for_loop C x 0 initial recs = (Inr (if recs = [] then initial else initial\<lparr>position := 1\<rparr>), tl recs)"
  by (cases recs) (simp_all add: loop_body_def initial_def Let_def)

lemma window_zero: "window (x, 0) = (x, 0)"
  by (simp add: window_def)

text \<open>
  C10. With an end bound of 0 (which the normalisation never swaps away), the loop takes
  at most one record from the reader and stops with empty accumulators, and
  \<^verbatim>\<open>get_file_features\<close> raises ZeroDivisionError on every input: it never returns a
  feature vector.
\<close>

theorem end_bound_zero_fails:
  "window (x, 0) = (x, 0) \<and>
   for_loop C x 0 initial recs
     = (Inr (if recs = [] then initial else initial\<lparr>position := 1\<rparr>), tl recs) \<and>
   get_file_features C recs (x, 0)
     = (Inl ZeroDivisionError, \<lparr>pending = tl recs, was_closed = False\<rparr>)"
proof -
  have "qual_avgs (if recs = [] then initial else initial\<lparr>position := 1\<rparr>) = Inl ZeroDivisionError"
    by (simp add: qual_avgs_def mean_float_def initial_def)
  then have "get_file_features C recs (x, 0)
     = (Inl ZeroDivisionError, \<lparr>pending = tl recs, was_closed = False\<rparr>)"
    by (simp add: get_file_features_def window_zero for_loop_end_zero SeqReader_def Let_def)
  then show ?thesis
    by (simp add: window_zero for_loop_end_zero)
qed

text \<open>
  C5. When both bounds are nonzero and the end is below the start, the window
  \<open>(x, y)\<close> gives the same result (feature vector, count, error, reader) as \<open>(y, x)\<close>.
\<close>

theorem window_swap:
  assumes "x \<noteq> 0" and "y \<noteq> 0" and "y < x"
  shows "get_file_features C recs (x, y) = get_file_features C recs (y, x)"
proof -
  from assms have "window (x, y) = window (y, x)" by (simp add: window_def)
  then show ?thesis by (simp add: get_file_features_def)
qed

theorem window_swap_witness:
  "(500::int) \<noteq> 0 \<and> (10::int) \<noteq> 0 \<and> (10::int) < 500 \<and>
   get_file_features sample reads (500, 10) = get_file_features sample reads (10, 500) \<and>
   window (500, 10) = (10, 500)"
  using window_swap [of 500 10 sample reads] by (simp add: window_def)

text \<open>
  C1. On the sample file, the window (0, 0) does not process the file to its end: the
  loop breaks at the first record, no record contributes although two records with
  quality lie at or after the start bound, two records are left unread, and the call
  raises ZeroDivisionError.
\<close>

theorem whole_file_window_fails:
  "get_file_features sample reads (0, 0)
     = (Inl ZeroDivisionError, \<lparr>pending = tl reads, was_closed = False\<rparr>) \<and>
   length (contributing 0 0 0 reads) = 0 \<and>
   length (filter (\<lambda>r. length (qual_of r) \<noteq> 0) reads) = 2"
  by (simp add: sample_simps model_simps)

subsection \<open>The contributing records\<close>

lemma loop_body_skip:
  assumes "\<not> position st + 1 > y" and "length (qual_of r) = 0 \<or> position st + 1 < x"
  shows "loop_body C x y st r = Next (st\<lparr>position := position st + 1\<rparr>)"
  using assms by (simp add: loop_body_def Let_def)

lemma loop_body_break:
  assumes "position st + 1 > y"
  shows "loop_body C x y st r = Break (st\<lparr>position := position st + 1\<rparr>)"
  using assms by (simp add: loop_body_def Let_def)

lemma loop_body_contributes:
  assumes "\<not> position st + 1 > y" and "\<not> (length (qual_of r) = 0 \<or> position st + 1 < x)"
    and "loop_body C x y st r = Next st'"
  shows "position st' = position st + 1 \<and> count st' = count st + 1 \<and>
         lengths st' = lengths st @ [int (length (read_of r))]"
  using assms by (auto simp: loop_body_def Let_def split: sum.splits prod.splits if_splits)

lemma loop_body_contributes_no_break:
  assumes "\<not> position st + 1 > y" and "\<not> (length (qual_of r) = 0 \<or> position st + 1 < x)"
  shows "loop_body C x y st r \<noteq> Break st'"
  using assms by (auto simp: loop_body_def Let_def split: sum.splits prod.splits if_splits)

lemma for_loop_lengths:
  "for_loop C x y st recs = (Inr st', rest) \<Longrightarrow>
     lengths st' = lengths st @ map (\<lambda>r. int (length (read_of r))) (contributing x y (position st) recs)
     \<and> count st' = count st + int (length (contributing x y (position st) recs))"
proof (induction recs arbitrary: st)
  case Nil
  then show ?case by simp
next
  case (Cons r recs)
  consider (brk) "position st + 1 > y"
    | (skip) "\<not> position st + 1 > y" "length (qual_of r) = 0 \<or> position st + 1 < x"
    | (take) "\<not> position st + 1 > y" "\<not> (length (qual_of r) = 0 \<or> position st + 1 < x)"
    by blast
  then show ?case
  proof cases
    case brk
    with Cons.prems show ?thesis by (auto simp: loop_body_break)
  next
    case skip
    with Cons.prems have "for_loop C x y (st\<lparr>position := position st + 1\<rparr>) recs = (Inr st', rest)"
      by (simp add: loop_body_skip)
    from Cons.IH [OF this] skip show ?thesis by simp
  next
    case take
    show ?thesis
    proof (cases "loop_body C x y st r")
      case (Next s)
      with Cons.prems have run: "for_loop C x y s recs = (Inr st', rest)" by simp
      from loop_body_contributes [OF take Next] Cons.IH [OF run] take
      show ?thesis by simp
    next
      case (Break s)
      with loop_body_contributes_no_break [OF take] show ?thesis by blast
    next
      case (Raise e)
      with Cons.prems show ?thesis by simp
    qed
  qed
qed

lemma for_loop_no_contribution:
  "contributing x y (position st) recs = [] \<Longrightarrow>
     \<exists>st' rest. for_loop C x y st recs = (Inr st', rest) \<and> avg_avg_phred st' = avg_avg_phred st"
proof (induction recs arbitrary: st)
  case Nil
  then show ?case by simp
next
  case (Cons r recs)
  consider (brk) "position st + 1 > y"
    | (skip) "\<not> position st + 1 > y" "length (qual_of r) = 0 \<or> position st + 1 < x"
    | (take) "\<not> position st + 1 > y" "\<not> (length (qual_of r) = 0 \<or> position st + 1 < x)"
    by blast
  then show ?case
  proof cases
    case brk
    then show ?thesis by (simp add: loop_body_break)
  next
    case skip
    with Cons.prems have "contributing x y (position (st\<lparr>position := position st + 1\<rparr>)) recs = []"
      by simp
    from Cons.IH [OF this] skip show ?thesis by (simp add: loop_body_skip)
  next
    case take
    with Cons.prems show ?thesis by simp
  qed
qed

lemma empty_window_file:
  assumes "contributing (fst (window positions)) (snd (window positions)) 0 recs = []"
  shows "fst (get_file_features C recs positions) = Inl ZeroDivisionError"
proof -
  have "contributing (fst (window positions)) (snd (window positions)) (position initial) recs = []"
    using assms by (simp add: initial_def)
  from for_loop_no_contribution [OF this] obtain st' rest where
    run: "for_loop C (fst (window positions)) (snd (window positions)) initial recs = (Inr st', rest)"
    and acc: "avg_avg_phred st' = avg_avg_phred initial" by blast
  from acc have "qual_avgs st' = Inl ZeroDivisionError"
    by (simp add: qual_avgs_def mean_float_def initial_def)
  with run show ?thesis
    by (simp add: get_file_features_def SeqReader_def Let_def)
qed

subsection \<open>Errors of a file in the directory loop\<close>

lemma split_py_length: "sep \<in> set s \<Longrightarrow> 2 \<le> length (split_py sep s)"
proof (induction s)
  case Nil
  then show ?case by simp
next
  case (Cons c s)
  have ne: "split_py sep s \<noteq> []" by (cases s) (auto split: list.splits)
  show ?case
  proof (cases "c = sep")
    case True
    with ne show ?thesis by (cases "split_py sep s") simp_all
  next
    case False
    with Cons have "2 \<le> length (split_py sep s)" by simp
    with False show ?thesis by (cases "split_py sep s") simp_all
  qed
qed

lemma endswith_fastq_dot: "endswith filename ''.fastq'' \<Longrightarrow> CHR ''.'' \<in> set filename"
proof -
  assume "endswith filename ''.fastq''"
  then have "drop (length filename - length ''.fastq'') filename = ''.fastq''"
    by (simp add: endswith_def)
  then have "CHR ''.'' \<in> set (drop (length filename - length ''.fastq'') filename)" by simp
  then show ?thesis by (rule in_set_dropD)
qed

lemma listing_loop_first_error:
  assumes "endswith filename ''.fastq''"
    and "fst (get_file_features C (files filename) positions) = Inl e"
    and "\<forall>f \<in> set pre. endswith f ''.fastq'' \<longrightarrow>
            (\<exists>v. fst (get_file_features C (files f) positions) = Inr v)"
  shows "fst (listing_loop C files positions n out (pre @ filename # post)) = Inl e"
  using assms(3)
proof (induction pre arbitrary: n out)
  case Nil
  with assms(1,2) show ?case by simp
next
  case (Cons f pre)
  show ?case
  proof (cases "endswith f ''.fastq''")
    case False
    with Cons show ?thesis by simp
  next
    case True
    with Cons.prems obtain v where v: "fst (get_file_features C (files f) positions) = Inr v"
      by auto
    from True have "2 \<le> length (split_py (CHR ''.'') f)"
      by (intro split_py_length endswith_fastq_dot)
    then have items: "get_item (split_py (CHR ''.'') f) 1 = Inr (split_py (CHR ''.'') f ! 1)"
      "get_item (split_py (CHR ''.'') f) 0 = Inr (split_py (CHR ''.'') f ! 0)"
      by (auto simp: get_item_def)
    from Cons.prems have "\<forall>f \<in> set pre. endswith f ''.fastq'' \<longrightarrow>
            (\<exists>v. fst (get_file_features C (files f) positions) = Inr v)" by simp
    from Cons.IH [OF this] True v items show ?thesis
      by (simp add: Let_def split: prod.splits)
  qed
qed

text \<open>
  C4. When no record of a file contributes, \<^verbatim>\<open>get_file_features\<close> raises
  ZeroDivisionError (an explicit error, no sentinel value), and
  \<^verbatim>\<open>get_directory_features\<close> does not catch it: when the files listed before it
  were extracted, the whole directory run ends with that error.
\<close>

theorem empty_window_propagates:
  assumes empty: "contributing (fst (window positions)) (snd (window positions)) 0 (files filename) = []"
      and eligible: "endswith filename ''.fastq''"
      and earlier: "\<forall>f \<in> set pre. endswith f ''.fastq'' \<longrightarrow>
                      (\<exists>v. fst (get_file_features C (files f) positions) = Inr v)"
  shows "fst (get_file_features C (files filename) positions) = Inl ZeroDivisionError \<and>
         fst (get_directory_features C files (pre @ filename # post) positions header srr)
           = Inl ZeroDivisionError"
proof -
  have failing: "fst (get_file_features C (files filename) positions) = Inl ZeroDivisionError"
    using empty by (rule empty_window_file)
  from listing_loop_first_error [OF eligible failing earlier] failing
  show ?thesis by (simp add: get_directory_features_def)
qed

text \<open>The features of the sample file with the window (1, 3000).\<close>

lemma sample_features:
  "get_file_features sample reads (1, 3000) =
     (Inr ([5, 4, 6, 5, sqrt 2, 0,
            (100 * 10 powr - 2 + 100 * 10 powr - (71 / 10)) / 2,
            (10 powr - 2 * 100 + 10 powr - (71 / 10) * 100) / 2,
            (10 powr - 2 * 100 + 10 powr - (71 / 10) * 100) / 2], 2),
      \<lparr>pending = [], was_closed = True\<rparr>)"
  by (simp add: sample_simps model_simps)

theorem empty_window_propagates_witness:
  "contributing (fst (window (1, 3000))) (snd (window (1, 3000))) 0
       (sample_files ''SRR222.pacbio.fastq'') = [] \<and>
   endswith ''SRR222.pacbio.fastq'' ''.fastq'' \<and>
   endswith ''SRR111.illumina.fastq'' ''.fastq'' \<and>
   (\<exists>v. fst (get_file_features sample (sample_files ''SRR111.illumina.fastq'') (1, 3000)) = Inr v) \<and>
   \<not> endswith ''notes.txt'' ''.fastq'' \<and>
   fst (get_file_features sample (sample_files ''SRR222.pacbio.fastq'') (1, 3000))
     = Inl ZeroDivisionError \<and>
   fst (get_directory_features sample sample_files
          ([''SRR111.illumina.fastq'', ''notes.txt''] @ ''SRR222.pacbio.fastq'' # [''SRR333.nanopore.fastq''])
          (1, 3000) True True)
     = Inl ZeroDivisionError"
proof -
  have a: "contributing (fst (window (1, 3000))) (snd (window (1, 3000))) 0
       (sample_files ''SRR222.pacbio.fastq'') = []"
    by (simp add: sample_files_def)
  have b: "endswith ''SRR222.pacbio.fastq'' ''.fastq''"
    by (simp add: endswith_def)
  have c: "\<forall>f \<in> set [''SRR111.illumina.fastq'', ''notes.txt'']. endswith f ''.fastq'' \<longrightarrow>
       (\<exists>v. fst (get_file_features sample (sample_files f) (1, 3000)) = Inr v)"
    by (simp add: sample_files_def sample_features endswith_def)
  have d: "endswith ''SRR111.illumina.fastq'' ''.fastq''"
    "\<exists>v. fst (get_file_features sample (sample_files ''SRR111.illumina.fastq'') (1, 3000)) = Inr v"
    "\<not> endswith ''notes.txt'' ''.fastq''"
    by (simp_all add: sample_files_def sample_features endswith_def)
  from empty_window_propagates [OF a b c, where post = "[''SRR333.nanopore.fastq'']" and header = True and srr = True] a b d
  show ?thesis by blast
qed

subsection \<open>The final statistics\<close>

lemma mean_float_nonempty: "xs \<noteq> [] \<Longrightarrow> mean_float xs = Inr (sum_list xs / real (length xs))"
  by (simp add: mean_float_def)

lemma qual_avgs_ok:
  assumes "aligned st" and "count st \<noteq> 0"
  shows "\<exists>avgs. qual_avgs st = Inr avgs"
proof -
  from assms have "avg_avg_phred st \<noteq> []" "avg_min_phred st \<noteq> []" "avg_max_phred st \<noteq> []"
    by (auto simp: aligned_def)
  then show ?thesis by (simp add: qual_avgs_def mean_float_nonempty)
qed

lemma qual_avgs_empty:
  assumes "aligned st" and "count st = 0"
  shows "qual_avgs st = Inl ZeroDivisionError"
  using assms by (simp add: qual_avgs_def mean_float_def aligned_def)

lemma feature_list_single: "feature_list C [l] avgs = Inl StatisticsError"
  by (simp add: feature_list_def mean_int_def min_py_def max_py_def median_def stdev_def ss_def)

text \<open>
  C7. When the loop ends without an exception and exactly one record contributes,
  \<^verbatim>\<open>get_file_features\<close> fails with the StatisticsError of \<^verbatim>\<open>stdev\<close> (after
  closing the reader) and returns no feature vector.
\<close>

theorem single_read_stdev_error:
  assumes run: "for_loop C (fst (window positions)) (snd (window positions)) initial recs = (Inr st, rest)"
      and one: "length (contributing (fst (window positions)) (snd (window positions)) 0 recs) = 1"
  shows "get_file_features C recs positions
           = (Inl StatisticsError, \<lparr>pending = rest, was_closed = True\<rparr>)"
proof -
  from for_loop_lengths [OF run] one
  have len: "lengths st = map (\<lambda>r. int (length (read_of r)))
                (contributing (fst (window positions)) (snd (window positions)) 0 recs)"
    and cnt: "count st = 1"
    by (simp_all add: initial_def)
  from len one obtain l where l: "lengths st = [l]"
    by (cases "contributing (fst (window positions)) (snd (window positions)) 0 recs") auto
  have "aligned st" using for_loop_aligned [OF aligned_initial run] .
  with cnt obtain avgs where avgs: "qual_avgs st = Inr avgs"
    using qual_avgs_ok by fastforce
  from run avgs l show ?thesis
    by (simp add: get_file_features_def SeqReader_def close_reader_def Let_def feature_list_single)
qed

theorem single_read_stdev_error_witness:
  "for_loop sample (fst (window (1, 1))) (snd (window (1, 1))) initial reads
     = (Inr \<lparr>position = 2, count = 1, offset = 33, lengths = [4],
              avg_avg_phred = [100 * 10 powr - 2],
              avg_min_phred = [10 powr - 2 * 100],
              avg_max_phred = [10 powr - 2 * 100]\<rparr>, [(''r3'', ''ACGTAC'', ''hhhhhh'', '''')]) \<and>
   length (contributing (fst (window (1, 1))) (snd (window (1, 1))) 0 reads) = 1 \<and>
   get_file_features sample reads (1, 1)
     = (Inl StatisticsError,
        \<lparr>pending = [(''r3'', ''ACGTAC'', ''hhhhhh'', '''')], was_closed = True\<rparr>)"
proof -
  have a: "for_loop sample (fst (window (1, 1))) (snd (window (1, 1))) initial reads
     = (Inr \<lparr>position = 2, count = 1, offset = 33, lengths = [4],
              avg_avg_phred = [100 * 10 powr - 2],
              avg_min_phred = [10 powr - 2 * 100],
              avg_max_phred = [10 powr - 2 * 100]\<rparr>, [(''r3'', ''ACGTAC'', ''hhhhhh'', '''')])"
    by (simp add: sample_simps model_simps)
  have b: "length (contributing (fst (window (1, 1))) (snd (window (1, 1))) 0 reads) = 1"
    by (simp add: reads_def window_def qual_of_def)
  from single_read_stdev_error [OF a b] a b show ?thesis by blast
qed

text \<open>
  The sum of squares that \<^verbatim>\<open>_ss\<close> computes in one pass is the sum of the squared
  deviations from the mean.
\<close>

lemma sum_squared_deviations:
  "(\<Sum>v\<leftarrow>xs. (real_of_int v - m)\<^sup>2) =
     real_of_int (sum_list (map (\<lambda>n. n * n) xs)) - 2 * m * real_of_int (sum_list xs)
       + real (length xs) * m\<^sup>2"
  by (induction xs) (simp_all add: power2_eq_square algebra_simps)

lemma ss_closed_form:
  assumes "xs \<noteq> []"
  shows "fst (ss xs) = (\<Sum>v\<leftarrow>xs. (real_of_int v - real_of_int (sum_list xs) / real (length xs))\<^sup>2)"
proof -
  define n where "n = real (length xs)"
  define S where "S = real_of_int (sum_list xs)"
  define Q where "Q = real_of_int (sum_list (map (\<lambda>n. n * n) xs))"
  from assms have n: "n \<noteq> 0" by (simp add: n_def)
  have "(\<Sum>v\<leftarrow>xs. (real_of_int v - S / n)\<^sup>2) = Q - 2 * (S / n) * S + n * (S / n)\<^sup>2"
    unfolding n_def S_def Q_def by (rule sum_squared_deviations)
  also from n have "\<dots> = (n * Q - S * S) / n"
    by (simp add: power2_eq_square field_simps)
  also from assms have "\<dots> = fst (ss xs)"
    by (simp add: ss_def Let_def n_def S_def Q_def)
  finally show ?thesis by (simp add: n_def S_def)
qed

lemma stdev_closed_form:
  assumes "2 \<le> length xs"
  shows "stdev xs = Inr (closed_form_stddev xs)"
proof -
  from assms have ne: "xs \<noteq> []" by auto
  from assms have sub: "real (length xs - 1) = real (length xs) - 1" by simp
  obtain ssd c n where triple: "ss xs = (ssd, c, n)" by (cases "ss xs") auto
  from ne triple have n: "n = length xs" by (simp add: ss_def Let_def)
  from ss_closed_form [OF ne] triple
  have ssd: "ssd = (\<Sum>v\<leftarrow>xs. (real_of_int v - real_of_int (sum_list xs) / real (length xs))\<^sup>2)"
    by simp
  from assms triple n ssd sub show ?thesis
    by (simp add: stdev_def closed_form_stddev_def Let_def)
qed

lemma feature_list_two:
  assumes "2 \<le> length ls"
  shows "\<exists>a lo hi m. feature_list C ls avgs =
           Inr [a, lo, hi, m, closed_form_stddev ls, skew C ls,
                fst avgs, fst (snd avgs), snd (snd avgs)]"
proof -
  from assms obtain v vs where ls: "ls = v # vs" by (cases ls) auto
  define m where "m = (if length ls mod 2 = 1 then real_of_int (sort ls ! (length ls div 2))
                       else real_of_int (sort ls ! (length ls div 2 - 1) + sort ls ! (length ls div 2)) / 2)"
  from assms have "length ls \<noteq> 0" by auto
  then have m: "median ls = Inr m"
    unfolding median_def Let_def m_def by simp
  from ls have "mean_int ls = Inr (real_of_int (sum_list ls) / real (length ls))"
    "min_py ls = Inr (fold min vs v)" "max_py ls = Inr (fold max vs v)"
    by (simp_all add: mean_int_def min_py_def max_py_def)
  with m stdev_closed_form [OF assms] show ?thesis
    by (simp add: feature_list_def)
qed

text \<open>
  C8. When the lengths accumulator has at least two entries, \<^verbatim>\<open>get_file_features\<close>
  returns a feature vector of nine components whose fifth component (stddev_length) is the
  closed-form sample standard deviation of the lengths: the square root of the sum of the
  squared deviations from the mean divided by n - 1 (floats idealised as reals).
\<close>

theorem stddev_is_closed_form:
  assumes run: "for_loop C (fst (window positions)) (snd (window positions)) initial recs = (Inr st, rest)"
      and two: "2 \<le> length (lengths st)"
  shows "\<exists>features.
           get_file_features C recs positions
             = (Inr (features, count st), \<lparr>pending = rest, was_closed = True\<rparr>) \<and>
           length features = 9 \<and>
           features ! 4 = closed_form_stddev (lengths st)"
proof -
  have al: "aligned st" using for_loop_aligned [OF aligned_initial run] .
  with two have "count st \<noteq> 0" by (auto simp: aligned_def)
  with al obtain avgs where avgs: "qual_avgs st = Inr avgs"
    using qual_avgs_ok by blast
  from feature_list_two [OF two, of C avgs] obtain a lo hi m where
    fl: "feature_list C (lengths st) avgs =
           Inr [a, lo, hi, m, closed_form_stddev (lengths st), skew C (lengths st),
                fst avgs, fst (snd avgs), snd (snd avgs)]" by blast
  from run avgs fl show ?thesis
    by (simp add: get_file_features_def SeqReader_def close_reader_def Let_def)
qed

theorem stddev_is_closed_form_witness:
  "for_loop sample (fst (window (1, 3000))) (snd (window (1, 3000))) initial reads =
     (Inr \<lparr>position = 3, count = 2, offset = 33, lengths = [4, 6],
           avg_avg_phred = [100 * 10 powr - 2, 100 * 10 powr - (71 / 10)],
           avg_min_phred = [10 powr - 2 * 100, 10 powr - (71 / 10) * 100],
           avg_max_phred = [10 powr - 2 * 100, 10 powr - (71 / 10) * 100]\<rparr>, []) \<and>
   (2::nat) \<le> length [4, 6 :: int] \<and>
   (\<exists>features.
      get_file_features sample reads (1, 3000)
        = (Inr (features, 2), \<lparr>pending = [], was_closed = True\<rparr>) \<and>
      length features = 9 \<and>
      features ! 4 = closed_form_stddev [4, 6]) \<and>
   closed_form_stddev [4, 6] = sqrt 2"
proof -
  have a: "for_loop sample (fst (window (1, 3000))) (snd (window (1, 3000))) initial reads =
     (Inr \<lparr>position = 3, count = 2, offset = 33, lengths = [4, 6],
           avg_avg_phred = [100 * 10 powr - 2, 100 * 10 powr - (71 / 10)],
           avg_min_phred = [10 powr - 2 * 100, 10 powr - (71 / 10) * 100],
           avg_max_phred = [10 powr - 2 * 100, 10 powr - (71 / 10) * 100]\<rparr>, [])"
    using sample_run by (simp add: window_def)
  have c: "closed_form_stddev [4, 6] = sqrt 2"
    by (simp add: closed_form_stddev_def)
  from stddev_is_closed_form [OF a] a c show ?thesis by simp
qed

subsection \<open>Closing the reader\<close>

text \<open>
  C3, as stated, fails: on an empty file the call raises ZeroDivisionError, and on a
  file whose first quality string cannot be decoded it raises the decoding error, and
  in both cases the reader is left open.
\<close>

theorem reader_left_open:
  "fst (get_file_features sample [] (1, 3000)) = Inl ZeroDivisionError \<and>
   \<not> was_closed (snd (get_file_features sample [] (1, 3000))) \<and>
   fst (get_file_features sample [(''r1'', ''AC'', ''  '', '''')] (1, 3000)) = Inl DecodeError \<and>
   \<not> was_closed (snd (get_file_features sample [(''r1'', ''AC'', ''  '', '''')] (1, 3000)))"
  by (simp add: sample_simps model_simps)

text \<open>
  C3, amended. \<^verbatim>\<open>get_file_features\<close> has closed the reader when it terminates
  exactly when the loop ended without an exception and at least one read contributed;
  this includes the calls that fail later, in the final statistics.
\<close>

theorem reader_closed_iff:
  "was_closed (snd (get_file_features C recs positions)) \<longleftrightarrow>
     (\<exists>st rest. for_loop C (fst (window positions)) (snd (window positions)) initial recs
                   = (Inr st, rest) \<and> count st \<noteq> 0)"
proof (cases "for_loop C (fst (window positions)) (snd (window positions)) initial recs")
  case (Pair res rest)
  show ?thesis
  proof (cases res)
    case (Inl e)
    with Pair show ?thesis
      by (simp add: get_file_features_def SeqReader_def Let_def)
  next
    case (Inr st)
    with Pair have run: "for_loop C (fst (window positions)) (snd (window positions)) initial recs
                           = (Inr st, rest)" by simp
    have al: "aligned st" using for_loop_aligned [OF aligned_initial run] .
    show ?thesis
    proof (cases "count st = 0")
      case True
      with al have "qual_avgs st = Inl ZeroDivisionError" by (rule qual_avgs_empty)
      with run True show ?thesis
        by (simp add: get_file_features_def SeqReader_def Let_def)
    next
      case False
      with al obtain avgs where "qual_avgs st = Inr avgs" using qual_avgs_ok by blast
      with run False show ?thesis
        by (simp add: get_file_features_def SeqReader_def close_reader_def Let_def
                 split: sum.splits)
    qed
  qed
qed

theorem reader_closed_iff_witness:
  "was_closed (snd (get_file_features sample reads (1, 1))) \<and>
   fst (get_file_features sample reads (1, 1)) = Inl StatisticsError \<and>
   (\<exists>st rest. for_loop sample (fst (window (1, 1))) (snd (window (1, 1))) initial reads
                 = (Inr st, rest) \<and> count st \<noteq> 0)"
proof -
  have "get_file_features sample reads (1, 1)
     = (Inl StatisticsError,
        \<lparr>pending = [(''r3'', ''ACGTAC'', ''hhhhhh'', '''')], was_closed = True\<rparr>)"
    by (simp add: sample_simps model_simps)
  with reader_closed_iff [of sample reads "(1, 1)"] show ?thesis by simp
qed

subsection \<open>The encoding offset\<close>







subsection \<open>The rows of the directory output\<close>

text \<open>
  C2. For a directory with the one file \<^verbatim>\<open>SRR111.illumina.fastq\<close>, with the header
  requested and \<^verbatim>\<open>srr\<close> false, the data row holds the nine features in their fixed
  order and the platform label, and then the accession label all the same: the row has
  eleven cells under a header of ten, and it is the same row whether \<^verbatim>\<open>srr\<close> is set
  or not.
\<close>

theorem accession_column_without_srr:
  "get_directory_features sample sample_files [''SRR111.illumina.fastq''] (1, 3000) True False =
     (Inr 1,
      [[Txt ''avg_length'', Txt ''min_length'', Txt ''max_length'',
        Txt ''median_length'', Txt ''stddev_length'', Txt ''skew_length'',
        Txt ''avg_avg_phred'', Txt ''avg_min_phred'', Txt ''avg_max_phred'',
        Txt ''label''],
       [Num 5, Num 4, Num 6, Num 5, Num (sqrt 2), Num 0,
        Num ((100 * 10 powr - 2 + 100 * 10 powr - (71 / 10)) / 2),
        Num ((10 powr - 2 * 100 + 10 powr - (71 / 10) * 100) / 2),
        Num ((10 powr - 2 * 100 + 10 powr - (71 / 10) * 100) / 2),
        Txt ''illumina'', Txt ''SRR111'']]) \<and>
   snd (get_directory_features sample sample_files [''SRR111.illumina.fastq''] (1, 3000) False False)
     = snd (get_directory_features sample sample_files [''SRR111.illumina.fastq''] (1, 3000) False True)"
  by (simp add: get_directory_features_def header_rows_def HEADER_def endswith_def
        get_item_def sample_files_def sample_features)

end
